theory Spec2Isabelle
  imports Complex_Main
begin

section \<open>Data model (app/models/schemas.py)\<close>

text \<open>
  Python floats are modelled as rationals with one extra value for NaN: a \<open>float64\<close> is
  \<open>None\<close> for NaN and \<open>Some q\<close> otherwise, and every ordering comparison with NaN is false,
  as in IEEE 754. All arithmetic the scanner itself performs on floats (the confidence
  score) is on small integers, where float arithmetic is exact.
  A \<open>datetime\<close> is the number of microseconds since the start of the calendar, so
  \<open>timedelta(minutes=m)\<close> is \<open>m * 60000000\<close>.
\<close>

type_synonym float64 = "rat option"

definition lt_f :: "float64 \<Rightarrow> float64 \<Rightarrow> bool" where
  "lt_f a b = (case (a, b) of (Some x, Some y) \<Rightarrow> x < y | _ \<Rightarrow> False)"

definition gt_f :: "float64 \<Rightarrow> float64 \<Rightarrow> bool" where
  "gt_f a b = lt_f b a"

definition ge_f :: "float64 \<Rightarrow> float64 \<Rightarrow> bool" where
  "ge_f a b = (case (a, b) of (Some x, Some y) \<Rightarrow> y \<le> x | _ \<Rightarrow> False)"

type_synonym datetime = int

definition timedelta_minutes :: "int \<Rightarrow> int" where
  "timedelta_minutes m = m * 60000000"

definition timedelta_seconds :: "int \<Rightarrow> int" where
  "timedelta_seconds s = s * 1000000"

datatype pattern_type =
  Pin_bar | Engulfing_bullish | Engulfing_bearish | Inside_bar | Doji | Bos_bullish | Bos_bearish

record PriceActionPattern =
  pattern_type :: pattern_type
  description :: string
  candle_index :: int

datatype level_type = Support | Resistance

record SupportResistanceLevel =
  level :: float64
  sr_type :: level_type
  strength :: int
  touches :: int

text \<open>The schema declares \<open>strength: int = Field(ge=1, le=5)\<close>: constructing a level
  outside this range raises, so every level that exists satisfies it.\<close>

definition valid_level :: "SupportResistanceLevel \<Rightarrow> bool" where
  "valid_level l = (1 \<le> strength l \<and> strength l \<le> 5)"

datatype direction = CALL | PUT

datatype trend = Bullish | Bearish | Neutral

datatype sensitivity = Conservative | Moderate | Aggressive

datatype scan_mode = Manual | Auto

record ScanConfig =
  mode :: scan_mode
  symbols :: "string list option"
  timeframe :: int
  sensitivity :: sensitivity
  use_volume_filter :: bool
  use_volatility_filter :: bool
  use_trend_filter :: bool
  only_otc :: bool
  only_open_market :: bool

text \<open>The confluence reasons are strings built by f-strings from the values below; each
  constructor stands for one of the texts of \<open>_calculate_confluences\<close> and
  \<open>generate_signal\<close>, with the values interpolated into it.\<close>

datatype confluence =
  Pattern_reason string
  | Level_reason SupportResistanceLevel
  | Trend_reason trend
  | Volume_reason
  | Rsi_oversold float64
  | Rsi_overbought float64
  | Macd_bullish
  | Macd_bearish
  | Momentum_reason
  | Aggressive_reason

record TradingSignal =
  signal_id :: string
  timestamp :: datetime
  symbol :: string
  signal_timeframe :: int
  direction :: direction
  entry_price :: float64
  entry_time :: "datetime option"
  expiry_time :: "datetime option"
  pattern :: PriceActionPattern
  support_resistance :: "SupportResistanceLevel option"
  confluences :: "confluence list"
  confidence :: rat
  expiry_minutes :: int

section \<open>Signal generator (app/services/scanner/signal_generator.py)\<close>

text \<open>
  \<open>generate_signal\<close> reads the candle frame only through the pattern detector, the
  support/resistance detector and the indicator library, which compute on floating-point
  series. A \<open>market_view\<close> holds what those calls return on the frame (after the padding
  of the aggressive mode), and \<open>nrows\<close> is the length of the frame as received.
\<close>

record market_view =
  nrows :: nat
  detect_patterns :: "PriceActionPattern list"
  close_last :: float64
  open_last :: float64
  close_prev :: float64
  is_near_level :: "SupportResistanceLevel option"
  calculate_rsi :: "float64 list"
  detect_trend :: trend
  is_volume_increasing :: bool
  is_high_volatility :: bool
  macd_line :: "float64 list"
  signal_line :: "float64 list"

definition determine_direction ::
  "PriceActionPattern \<Rightarrow> SupportResistanceLevel option \<Rightarrow> market_view \<Rightarrow> direction option" where
  "determine_direction p sr_level v =
     (if pattern_type p \<in> {Pin_bar, Engulfing_bullish, Bos_bullish} then Some CALL
      else if pattern_type p \<in> {Engulfing_bearish, Bos_bearish} then Some PUT
      else if pattern_type p = Doji then
        (if calculate_rsi v \<noteq> [] then
           (if lt_f (last (calculate_rsi v)) (Some 50) then Some CALL else Some PUT)
         else Some CALL)
      else if pattern_type p = Inside_bar then
        (if detect_trend v = Bearish then Some PUT else Some CALL)
      else Some CALL)"

text \<open>Lines 98 to 102 of \<open>generate_signal\<close>: the fallback when no direction came back.\<close>

definition resolve_direction :: "sensitivity \<Rightarrow> direction option \<Rightarrow> market_view \<Rightarrow> direction option" where
  "resolve_direction sens d v =
     (case d of
        Some x \<Rightarrow> Some x
      | None \<Rightarrow>
          (if sens = Aggressive
           then Some (if ge_f (close_last v) (close_prev v) then CALL else PUT)
           else None))"

definition apply_filters :: "ScanConfig \<Rightarrow> market_view \<Rightarrow> direction \<Rightarrow> bool" where
  "apply_filters cfg v d =
     (if sensitivity cfg = Aggressive then True
      else if use_volume_filter cfg \<and> \<not> is_volume_increasing v then False
      else if use_volatility_filter cfg \<and> is_high_volatility v then False
      else if use_trend_filter cfg \<and> d = CALL \<and> detect_trend v = Bearish then False
      else if use_trend_filter cfg \<and> d = PUT \<and> detect_trend v = Bullish then False
      else True)"

definition calculate_confluences ::
  "PriceActionPattern \<Rightarrow> SupportResistanceLevel option \<Rightarrow> market_view \<Rightarrow> direction \<Rightarrow> confluence list" where
  "calculate_confluences p sr_level v d =
     [Pattern_reason (description p)]
     @ (case sr_level of Some l \<Rightarrow> [Level_reason l] | None \<Rightarrow> [])
     @ (if (d = CALL \<and> detect_trend v = Bullish) \<or> (d = PUT \<and> detect_trend v = Bearish)
        then [Trend_reason (detect_trend v)] else [])
     @ (if is_volume_increasing v then [Volume_reason] else [])
     @ (if calculate_rsi v \<noteq> [] then
          (if d = CALL \<and> lt_f (last (calculate_rsi v)) (Some 40)
             then [Rsi_oversold (last (calculate_rsi v))]
           else if d = PUT \<and> gt_f (last (calculate_rsi v)) (Some 60)
             then [Rsi_overbought (last (calculate_rsi v))]
           else [])
        else [])
     @ (if length (macd_line v) > 1 \<and> length (signal_line v) > 1 then
          (if d = CALL \<and> gt_f (last (macd_line v)) (last (signal_line v)) then [Macd_bullish]
           else if d = PUT \<and> lt_f (last (macd_line v)) (last (signal_line v)) then [Macd_bearish]
           else [])
        else [])"

definition calculate_confidence ::
  "sensitivity \<Rightarrow> confluence list \<Rightarrow> PriceActionPattern \<Rightarrow> SupportResistanceLevel option \<Rightarrow> rat" where
  "calculate_confidence sens cs p sr_level =
     (let c0 = 50 + of_nat (length cs) * 5;
          c1 = (if pattern_type p \<in> {Engulfing_bullish, Engulfing_bearish} then c0 + 15
                else if pattern_type p \<in> {Bos_bullish, Bos_bearish} then c0 + 10
                else c0);
          c2 = (case sr_level of Some l \<Rightarrow> c1 + of_int (strength l) * 3 | None \<Rightarrow> c1);
          c3 = (if sens = Aggressive then max c2 55 else c2)
      in min c3 95)"

definition next_minute :: "datetime \<Rightarrow> datetime" where
  "next_minute now = (now + timedelta_minutes 1) - (now + timedelta_minutes 1) mod 60000000"

text \<open>Lines 111 to 146 of \<open>generate_signal\<close>: confluences, confidence, timing and the
  signal object, once the pattern \<open>p\<close> and the direction \<open>d\<close> are known.\<close>

definition signal_confluences ::
  "ScanConfig \<Rightarrow> PriceActionPattern \<Rightarrow> SupportResistanceLevel option \<Rightarrow> market_view \<Rightarrow> direction
   \<Rightarrow> confluence list" where
  "signal_confluences cfg p sr_level v d =
     (let cs0 = calculate_confluences p sr_level v d;
          cs1 = (if cs0 = [] then cs0 @ [Momentum_reason] else cs0)
      in if sensitivity cfg = Aggressive then cs1 @ [Aggressive_reason] else cs1)"

definition build_signal ::
  "ScanConfig \<Rightarrow> string \<Rightarrow> market_view \<Rightarrow> datetime \<Rightarrow> string \<Rightarrow> PriceActionPattern
   \<Rightarrow> SupportResistanceLevel option \<Rightarrow> direction \<Rightarrow> TradingSignal" where
  "build_signal cfg symb v now uuid4 p sr_level d =
     (let cs = signal_confluences cfg p sr_level v d;
          conf = calculate_confidence (sensitivity cfg) cs p sr_level;
          entry_buffer = (if sensitivity cfg = Aggressive then 1 else 0);
          entry = next_minute now + timedelta_minutes entry_buffer;
          expiry_min = max (timeframe cfg) 2;
          expiry = entry + timedelta_minutes expiry_min
      in \<lparr>signal_id = uuid4,
          timestamp = now,
          symbol = symb,
          signal_timeframe = timeframe cfg,
          direction = d,
          entry_price = close_last v,
          entry_time = Some entry,
          expiry_time = Some expiry,
          pattern = p,
          support_resistance = sr_level,
          confluences = cs,
          confidence = conf,
          expiry_minutes = expiry_min\<rparr>)"

text \<open>Lines 70 to 83: the detected patterns, or the synthesized momentum pattern.\<close>

definition basis_patterns :: "ScanConfig \<Rightarrow> market_view \<Rightarrow> PriceActionPattern list" where
  "basis_patterns cfg v =
     (if detect_patterns v = [] \<and> sensitivity cfg = Aggressive then
        [\<lparr>pattern_type =
            (if ge_f (close_last v) (open_last v) then Bos_bullish else Bos_bearish),
          description = ''Momentum imediato detectado'',
          candle_index = int (max (nrows v) 5) - 1\<rparr>]
      else detect_patterns v)"

definition generate_signal ::
  "ScanConfig \<Rightarrow> string \<Rightarrow> market_view \<Rightarrow> datetime \<Rightarrow> string \<Rightarrow> TradingSignal option" where
  "generate_signal cfg symb v now uuid4 =
     (let aggressive = (sensitivity cfg = Aggressive);
          min_candles = (if aggressive then 5 else 50 :: nat)
      in if nrows v < min_candles \<and> (\<not> aggressive \<or> nrows v = 0) then None
         else if basis_patterns cfg v = [] then None
         else
           (let p = last (basis_patterns cfg v);
                sr_level = is_near_level v
            in case resolve_direction (sensitivity cfg) (determine_direction p sr_level v) v of
                 None \<Rightarrow> None
               | Some d \<Rightarrow>
                   if \<not> apply_filters cfg v d \<and> \<not> aggressive then None
                   else Some (build_signal cfg symb v now uuid4 p sr_level d)))"

section \<open>Automatic scanner (app/services/scanner/auto_scanner.py)\<close>

text \<open>The three containers of an \<open>AutoScanner\<close>: the per-symbol latest map, the history
  list and the by-id index. Pydantic models compare by field values, which is the
  equality of records.\<close>

record AutoScanner =
  latest_signals :: "string \<rightharpoonup> TradingSignal"
  signal_history :: "TradingSignal list"
  signal_index :: "string \<rightharpoonup> TradingSignal"

definition new_scanner :: AutoScanner where
  "new_scanner = \<lparr>latest_signals = Map.empty, signal_history = [], signal_index = Map.empty\<rparr>"

text \<open>Lines 69 to 71 of \<open>start_scanning\<close>: record one accepted signal.\<close>

definition append_signal :: "AutoScanner \<Rightarrow> TradingSignal \<Rightarrow> AutoScanner" where
  "append_signal st s =
     st\<lparr>latest_signals := (latest_signals st)(symbol s \<mapsto> s),
        signal_history := signal_history st @ [s],
        signal_index := (signal_index st)(signal_id s \<mapsto> s)\<rparr>"

text \<open>Lines 72 to 76: \<open>pop(0)\<close> once the history is longer than 200.\<close>

definition evict_oldest :: "AutoScanner \<Rightarrow> AutoScanner" where
  "evict_oldest st =
     (if length (signal_history st) > 200 then
        (case signal_history st of
           [] \<Rightarrow> st
         | oldest # rest \<Rightarrow>
             st\<lparr>signal_history := rest,
                signal_index := (signal_index st)(signal_id oldest := None),
                latest_signals :=
                  (if latest_signals st (symbol oldest) = Some oldest
                   then (latest_signals st)(symbol oldest := None)
                   else latest_signals st)\<rparr>)
      else st)"

definition accept_signal :: "AutoScanner \<Rightarrow> TradingSignal \<Rightarrow> AutoScanner" where
  "accept_signal st s = evict_oldest (append_signal st s)"

text \<open>The loop \<open>for signal in new_signals\<close>, over all the signals a scanner accepts.\<close>

fun accept_signals :: "AutoScanner \<Rightarrow> TradingSignal list \<Rightarrow> AutoScanner" where
  "accept_signals st [] = st"
| "accept_signals st (s # ss) = accept_signals (accept_signal st s) ss"

text \<open>What \<open>client.get_candles\<close> gives \<open>_scan_pair\<close>: an exception, \<open>None\<close>, or a frame.\<close>

datatype fetch = Fetch_raises | Fetch_none | Fetch_frame market_view

definition scan_pair ::
  "AutoScanner \<Rightarrow> ScanConfig \<Rightarrow> string \<Rightarrow> fetch \<Rightarrow> datetime \<Rightarrow> string \<Rightarrow> TradingSignal option" where
  "scan_pair st cfg symb data now uuid4 =
     (case data of
        Fetch_raises \<Rightarrow> None
      | Fetch_none \<Rightarrow> None
      | Fetch_frame v \<Rightarrow>
          (let min_needed = (if sensitivity cfg = Aggressive then 20 else 30 :: nat)
           in if nrows v < min_needed then None
           else
             (case generate_signal cfg symb v now uuid4 of
                None \<Rightarrow> None
              | Some signal \<Rightarrow>
                  (case latest_signals st symb of
                     None \<Rightarrow> Some signal
                   | Some prev_signal \<Rightarrow>
                       (let time_diff = timestamp signal - timestamp prev_signal
                        in if time_diff < timedelta_seconds 15
                              \<and> direction signal = direction prev_signal
                           then None
                           else Some signal)))))"

text \<open>Python's \<open>xs[:k]\<close>: a negative \<open>k\<close> counts from the end.\<close>

definition slice_to :: "'a list \<Rightarrow> int \<Rightarrow> 'a list" where
  "slice_to xs k = (if 0 \<le> k then take (nat k) xs else take (length xs - nat (- k)) xs)"

definition get_latest_signals :: "AutoScanner \<Rightarrow> int \<Rightarrow> float64 \<Rightarrow> TradingSignal list" where
  "get_latest_signals st limit min_confidence =
     slice_to [s \<leftarrow> rev (signal_history st). ge_f (Some (confidence s)) min_confidence] limit"

text \<open>An entry of the instrument list, a dict with the keys below.\<close>

record TradingPair =
  pair_symbol :: string
  pair_name :: string
  is_otc :: bool
  is_active :: bool

definition auto_pairs :: "ScanConfig \<Rightarrow> (bool \<Rightarrow> TradingPair list) \<Rightarrow> TradingPair list" where
  "auto_pairs cfg get_available_pairs =
     (let pairs = get_available_pairs (\<not> only_open_market cfg);
          pairs' = (if only_otc cfg then [p \<leftarrow> pairs. is_otc p]
                    else if only_open_market cfg then [p \<leftarrow> pairs. \<not> is_otc p]
                    else pairs);
          max_pairs = 30
      in take max_pairs pairs')"

text \<open>\<open>_get_pairs_to_scan\<close>; the client's \<open>get_available_pairs(include_otc)\<close> is a parameter.\<close>

definition get_pairs_to_scan :: "ScanConfig \<Rightarrow> (bool \<Rightarrow> TradingPair list) \<Rightarrow> TradingPair list" where
  "get_pairs_to_scan cfg get_available_pairs =
     (case symbols cfg of
        None \<Rightarrow> auto_pairs cfg get_available_pairs
      | Some syms \<Rightarrow>
          if mode cfg = Manual \<and> syms \<noteq> []
          then [p \<leftarrow> get_available_pairs True. pair_symbol p \<in> set syms]
          else auto_pairs cfg get_available_pairs)"

section \<open>Broker-gated scanner (app/services/scanner/iqoption_scanner.py)\<close>

text \<open>\<open>str.upper()\<close> on the ASCII letters, which instrument symbols are made of: a
  lowercase letter (codes 97 to 122) loses 32, which is bit 5 of its code.\<close>

definition upper_char :: "char \<Rightarrow> char" where
  "upper_char c =
     (if 97 \<le> (of_char c :: nat) \<and> (of_char c :: nat) \<le> 122
      then (case c of Char b0 b1 b2 b3 b4 b5 b6 b7 \<Rightarrow> Char b0 b1 b2 b3 b4 False b6 b7)
      else c)"

definition upper :: "string \<Rightarrow> string" where
  "upper s = map upper_char s"

text \<open>\<open>_get_otc_pairs\<close>, given the list \<open>get_user_pairs\<close> returned.\<close>

definition get_otc_pairs :: "ScanConfig \<Rightarrow> TradingPair list \<Rightarrow> TradingPair list" where
  "get_otc_pairs cfg pairs =
     (let active_pairs = [p \<leftarrow> pairs. is_active p];
          active_pairs' = (if only_otc cfg then [p \<leftarrow> active_pairs. is_otc p]
                           else if only_open_market cfg then [p \<leftarrow> active_pairs. \<not> is_otc p]
                           else active_pairs)
      in case symbols cfg of
           None \<Rightarrow> active_pairs'
         | Some syms \<Rightarrow>
             if syms \<noteq> []
             then [p \<leftarrow> active_pairs'. upper (pair_symbol p) \<in> set (map upper syms)]
             else active_pairs')"

section \<open>Broker session (app/services/scanner/iqoption_client.py)\<close>

text \<open>
  The broker library \<open>iqoptionapi\<close> is an external collaborator. A \<open>transport\<close> holds what
  each of its calls does during one login attempt: it raises, or it returns a value.
  A failure reason is kept with what the client's own helpers make of it:
  \<open>_is_two_factor_challenge\<close>, the message of \<open>_handle_two_factor_challenge\<close> and the text of
  \<open>_interpret_reason\<close>.
\<close>

datatype 'a call = Raises string | Returns 'a

record reason =
  is_two_factor_challenge :: bool
  challenge_message :: string
  interpret_reason :: string

text \<open>What \<open>api.get_balance\<close> hands back: \<open>None\<close>, a number, or a value \<open>float()\<close> rejects.\<close>

datatype balance_value = Balance_none | Balance_number float64 | Balance_not_a_number

record transport =
  create_api :: "unit call"
  api_connect :: "(bool \<times> reason) call"
  api_connect_2fa :: "(bool \<times> reason) call"
  api_change_balance :: "unit call"
  api_check_connect :: "bool call option"
  api_get_balance :: "balance_value call"

datatype account = PRACTICE | REAL

record IQOptionClient =
  api :: bool
  connected :: bool
  email :: "string option"
  password :: "string option"
  account_type :: account
  last_error :: "string option"
  connected_email :: "string option"
  connected_password :: "string option"
  connected_account_type :: "account option"
  last_known_balance :: "float64 option"
  awaiting_two_factor :: bool
  two_factor_message :: "string option"

text \<open>Python truthiness of an optional string.\<close>

definition truthy :: "string option \<Rightarrow> bool" where
  "truthy x = (case x of None \<Rightarrow> False | Some t \<Rightarrow> t \<noteq> [])"

definition clear_connection_state :: "IQOptionClient \<Rightarrow> IQOptionClient" where
  "clear_connection_state c =
     c\<lparr>api := False, connected := False, connected_email := None, connected_password := None,
       connected_account_type := None, last_known_balance := None,
       awaiting_two_factor := False, two_factor_message := None\<rparr>"

text \<open>\<open>disconnect\<close> closes the library object inside a \<open>try\<close> that swallows every exception,
  and clears the state in its \<open>finally\<close>.\<close>

definition disconnect :: "IQOptionClient \<Rightarrow> IQOptionClient" where
  "disconnect c = clear_connection_state c"

definition handle_two_factor_challenge :: "reason \<Rightarrow> IQOptionClient \<Rightarrow> IQOptionClient" where
  "handle_two_factor_challenge r c =
     c\<lparr>awaiting_two_factor := True, two_factor_message := Some (challenge_message r)\<rparr>"

definition validation_failed :: string where
  "validation_failed = ''Falha ao validar credenciais. Verifique se o email e senha estao corretos.''"

text \<open>The \<open>try\<close> block of \<open>_finalize_successful_login\<close> that fetches the balance. The first
  component is the exception that leaves the method, if any.\<close>

definition validate_balance :: "transport \<Rightarrow> IQOptionClient \<Rightarrow> string option \<times> IQOptionClient" where
  "validate_balance t c =
     (case api_get_balance t of
        Raises e \<Rightarrow> (Some e, disconnect (c\<lparr>last_error := Some validation_failed\<rparr>))
      | Returns Balance_none \<Rightarrow>
          (Some ''Falha ao obter saldo. Credenciais podem estar incorretas.'',
           disconnect (c\<lparr>last_error := Some validation_failed\<rparr>))
      | Returns Balance_not_a_number \<Rightarrow>
          (Some ''could not convert to float'',
           disconnect (c\<lparr>last_error := Some validation_failed\<rparr>))
      | Returns (Balance_number b) \<Rightarrow>
          (let c1 = c\<lparr>last_known_balance := Some b\<rparr>
           in if lt_f b (Some 0) then
                (Some ''Saldo invalido retornado. Credenciais podem estar incorretas.'',
                 disconnect (c1\<lparr>last_error := Some validation_failed\<rparr>))
              else
                (None, c1\<lparr>connected_email := email c1, connected_password := password c1,
                          connected_account_type := Some (account_type c1)\<rparr>)))"

definition finalize_successful_login ::
  "transport \<Rightarrow> IQOptionClient \<Rightarrow> string option \<times> IQOptionClient" where
  "finalize_successful_login t c =
     (if \<not> api c then (Some ''Cliente IQ Option indisponivel apos login.'', c)
      else
        (let c1 = c\<lparr>connected := True, awaiting_two_factor := False,
                    two_factor_message := None, last_error := None\<rparr>
         in case api_change_balance t of
              Raises e \<Rightarrow> (Some e, c1)
            | Returns u \<Rightarrow>
                (case api_check_connect t of
                   Some (Raises e) \<Rightarrow> (Some e, c1)
                 | Some (Returns False) \<Rightarrow>
                     (Some ''IQ Option disconnected right after login.'',
                      disconnect (c1\<lparr>last_error := Some ''IQ Option disconnected right after login.''\<rparr>))
                 | Some (Returns True) \<Rightarrow> validate_balance t c1
                 | None \<Rightarrow> validate_balance t c1)))"

text \<open>The \<open>except Exception\<close> handler of \<open>connect\<close>; \<open>e\<close> is the text
  \<open>_interpret_exception\<close> makes of the exception.\<close>

definition connect_failed :: "string \<Rightarrow> IQOptionClient \<Rightarrow> bool call \<times> IQOptionClient" where
  "connect_failed e c = (Returns False, clear_connection_state (c\<lparr>last_error := Some e\<rparr>))"

text \<open>The \<open>try\<close> block of \<open>connect\<close>, lines 121 to 152.\<close>

definition connect_attempt :: "transport \<Rightarrow> IQOptionClient \<Rightarrow> bool call \<times> IQOptionClient" where
  "connect_attempt t c =
     (case create_api t of
        Raises e \<Rightarrow> connect_failed e c
      | Returns u \<Rightarrow>
          (let c1 = c\<lparr>api := True\<rparr>
           in case api_connect t of
                Raises e \<Rightarrow> connect_failed e c1
              | Returns (check, r) \<Rightarrow>
                  if \<not> check then
                    (if is_two_factor_challenge r then
                       (let c2 = handle_two_factor_challenge r c1
                        in (Returns False, c2\<lparr>last_error := two_factor_message c2\<rparr>))
                     else
                       (Returns False,
                        clear_connection_state (c1\<lparr>last_error := Some (interpret_reason r)\<rparr>)))
                  else
                    (case finalize_successful_login t c1 of
                       (Some e, c2) \<Rightarrow> connect_failed e c2
                     | (None, c2) \<Rightarrow> (Returns True, c2))))"

text \<open>\<open>connect(email, password, account_type)\<close>; \<open>available\<close> is \<open>IQ_OPTION_AVAILABLE\<close>.
  The result is what the coroutine returns or the exception it raises, with the client
  as it is left.\<close>

definition connect ::
  "bool \<Rightarrow> transport \<Rightarrow> string option \<Rightarrow> string option \<Rightarrow> account option \<Rightarrow> IQOptionClient
   \<Rightarrow> bool call \<times> IQOptionClient" where
  "connect available t em pw acct c =
     (if \<not> available then
        (Returns False, c\<lparr>last_error := Some ''Biblioteca IQ Option nao encontrada. Reinstale a aplicacao.''\<rparr>)
      else
        (let c1 = c\<lparr>email := (if truthy em then em else email c),
                    password := (if truthy pw then pw else password c)\<rparr>;
             previous_account = account_type c1;
             c2 = (case acct of Some a \<Rightarrow> c1\<lparr>account_type := a\<rparr> | None \<Rightarrow> c1);
             c3 = c2\<lparr>awaiting_two_factor := False, two_factor_message := None\<rparr>;
             credentials_changed =
               (connected_email c3 \<noteq> None
                \<and> (email c3 \<noteq> connected_email c3 \<or> password c3 \<noteq> connected_password c3));
             account_changed = (previous_account \<noteq> account_type c3)
         in if connected c3 \<and> api c3 \<and> \<not> credentials_changed then
              (if account_changed then
                 (case api_change_balance t of
                    Raises e \<Rightarrow> (Raises e, c3)
                  | Returns u \<Rightarrow> (Returns True, c3))
               else (Returns True, c3))
            else
              (let c4 = (if connected c3 \<and> api c3 then disconnect c3 else c3)
               in if \<not> truthy (email c4) \<or> \<not> truthy (password c4) then
                    (Returns False, c4\<lparr>last_error := Some ''Missing credentials''\<rparr>)
                  else connect_attempt t c4)))"

text \<open>\<open>submit_two_factor_code\<close>: only the call of \<open>connect_2fa\<close> is inside a \<open>try\<close>.\<close>

definition submit_two_factor_code ::
  "transport \<Rightarrow> IQOptionClient \<Rightarrow> (bool \<times> string) call \<times> IQOptionClient" where
  "submit_two_factor_code t c =
     (if \<not> awaiting_two_factor c \<or> \<not> api c then
        (Returns (False, ''Nenhum desafio de verificacao pendente.''), c)
      else
        (case api_connect_2fa t of
           Raises e \<Rightarrow>
             (Returns (False, ''Erro ao validar codigo: '' @ e),
              c\<lparr>last_error := Some (''Erro ao validar codigo: '' @ e)\<rparr>)
         | Returns (check, r) \<Rightarrow>
             if \<not> check then
               (if is_two_factor_challenge r then
                  (let c1 = handle_two_factor_challenge r c;
                       message = (if truthy (two_factor_message c1)
                                  then challenge_message r
                                  else ''Codigo invalido. Tente novamente.'')
                   in (Returns (False, message), c1\<lparr>last_error := Some message\<rparr>))
                else
                  (Returns (False, interpret_reason r),
                   (clear_connection_state c)\<lparr>last_error := Some (interpret_reason r)\<rparr>))
             else
               (case finalize_successful_login t c of
                  (Some e, c1) \<Rightarrow> (Raises e, c1)
                | (None, c1) \<Rightarrow> (Returns (True, ''Verificacao concluida!''), c1))))"

section \<open>The specification's wording\<close>

text \<open>Confidence as the specification words it: base 50, 5 per confluence reason, 15 for
  an engulfing pattern, 10 for a break of structure, 3 times the strength of an attached
  level, clamped to 0..95, and floored at 55 in aggressive mode.\<close>

definition spec_confidence ::
  "sensitivity \<Rightarrow> nat \<Rightarrow> pattern_type \<Rightarrow> SupportResistanceLevel option \<Rightarrow> rat" where
  "spec_confidence sens n pt lvl =
     (let raw = 50 + 5 * of_nat n
                + (if pt = Engulfing_bullish \<or> pt = Engulfing_bearish then 15
                   else if pt = Bos_bullish \<or> pt = Bos_bearish then 10 else 0)
                + (case lvl of None \<Rightarrow> 0 | Some l \<Rightarrow> 3 * of_int (strength l));
          clamped = max 0 (min 95 raw)
      in if sens = Aggressive then max 55 clamped else clamped)"

definition attached_level_valid :: "market_view \<Rightarrow> bool" where
  "attached_level_valid v = (case is_near_level v of None \<Rightarrow> True | Some l \<Rightarrow> valid_level l)"

text \<open>The next full-minute boundary after \<open>now\<close>: the one multiple of a minute in
  \<open>(now, now + 1 min]\<close>.\<close>

definition is_next_minute_boundary :: "datetime \<Rightarrow> datetime \<Rightarrow> bool" where
  "is_next_minute_boundary now b = (b mod 60000000 = 0 \<and> now < b \<and> b \<le> now + 60000000)"

text \<open>The direction table of the specification.\<close>

definition spec_direction :: "pattern_type \<Rightarrow> float64 \<Rightarrow> trend \<Rightarrow> direction" where
  "spec_direction pt rsi tr =
     (case pt of
        Pin_bar \<Rightarrow> CALL
      | Engulfing_bullish \<Rightarrow> CALL
      | Bos_bullish \<Rightarrow> CALL
      | Engulfing_bearish \<Rightarrow> PUT
      | Bos_bearish \<Rightarrow> PUT
      | Doji \<Rightarrow> (if lt_f rsi (Some 50) then CALL else PUT)
      | Inside_bar \<Rightarrow> (if tr = Bearish then PUT else CALL))"

section \<open>Example inputs\<close>

definition example_level :: SupportResistanceLevel where
  "example_level = \<lparr>level = Some 1, sr_type = Support, strength = 3, touches = 3\<rparr>"

definition example_config :: ScanConfig where
  "example_config =
     \<lparr>mode = Auto, symbols = None, timeframe = 1, sensitivity = Aggressive,
      use_volume_filter = True, use_volatility_filter = True, use_trend_filter = True,
      only_otc = False, only_open_market = False\<rparr>"

definition example_view :: market_view where
  "example_view =
     \<lparr>nrows = 60,
      detect_patterns = [\<lparr>pattern_type = Doji, description = ''Doji'', candle_index = 59\<rparr>],
      close_last = Some 1, open_last = Some 1, close_prev = Some 1,
      is_near_level = Some example_level,
      calculate_rsi = [Some 30],
      detect_trend = Neutral,
      is_volume_increasing = False,
      is_high_volatility = False,
      macd_line = [], signal_line = []\<rparr>"

text \<open>The signal \<open>generate_signal\<close> gives on the example at 1 min 30 s, and earlier
  signals of the same symbol.\<close>

definition example_signal :: TradingSignal where
  "example_signal =
     \<lparr>signal_id = ''id-1'', timestamp = 90000000, symbol = ''EURUSD'',
      signal_timeframe = 1, direction = CALL, entry_price = Some 1,
      entry_time = Some 180000000, expiry_time = Some 300000000,
      pattern = \<lparr>pattern_type = Doji, description = ''Doji'', candle_index = 59\<rparr>,
      support_resistance = Some example_level,
      confluences = [Pattern_reason ''Doji'', Level_reason example_level,
                     Rsi_oversold (Some 30), Aggressive_reason],
      confidence = 79, expiry_minutes = 2\<rparr>"

definition earlier_signal :: "datetime \<Rightarrow> direction \<Rightarrow> TradingSignal" where
  "earlier_signal t d = example_signal\<lparr>signal_id := ''id-0'', timestamp := t, direction := d\<rparr>"

definition scanner_with_latest :: "TradingSignal \<Rightarrow> AutoScanner" where
  "scanner_with_latest s =
     \<lparr>latest_signals = [symbol s \<mapsto> s], signal_history = [s], signal_index = [signal_id s \<mapsto> s]\<rparr>"

definition example_pair :: TradingPair where
  "example_pair =
     \<lparr>pair_symbol = ''EURUSD'', pair_name = ''EURUSD'', is_otc = False, is_active = True\<rparr>"

definition manual_config :: ScanConfig where
  "manual_config =
     \<lparr>mode = Manual, symbols = Some [''eurusd''], timeframe = 5, sensitivity = Moderate,
      use_volume_filter = True, use_volatility_filter = True, use_trend_filter = True,
      only_otc = False, only_open_market = False\<rparr>"

definition three_signals :: AutoScanner where
  "three_signals =
     accept_signals new_scanner
       [example_signal\<lparr>signal_id := ''a'', confidence := 70\<rparr>,
        example_signal\<lparr>signal_id := ''b'', confidence := 80\<rparr>,
        example_signal\<lparr>signal_id := ''c'', confidence := 90\<rparr>]"

text \<open>A client waiting for its verification code, and a broker that accepts the code
  and then fails to switch the balance.\<close>

definition pending_client :: IQOptionClient where
  "pending_client =
     \<lparr>api = True, connected = False, email = Some ''user@example.com'',
      password = Some ''secret'', account_type = PRACTICE, last_error = None,
      connected_email = None, connected_password = None, connected_account_type = None,
      last_known_balance = None, awaiting_two_factor = True,
      two_factor_message = Some ''Verificacao SMS pendente.''\<rparr>"

definition no_reason :: reason where
  "no_reason = \<lparr>is_two_factor_challenge = False, challenge_message = [], interpret_reason = []\<rparr>"

definition accepting_transport :: "unit call \<Rightarrow> balance_value call \<Rightarrow> transport" where
  "accepting_transport switch bal =
     \<lparr>create_api = Returns (), api_connect = Returns (True, no_reason),
      api_connect_2fa = Returns (True, no_reason), api_change_balance = switch,
      api_check_connect = Some (Returns True), api_get_balance = bal\<rparr>"

definition fresh_client :: IQOptionClient where
  "fresh_client = pending_client\<lparr>api := False, awaiting_two_factor := False, two_factor_message := None\<rparr>"

text \<open>The balance fetches the specification rejects: raising, null, or negative (a value
  that \<open>float()\<close> refuses raises too).\<close>

definition balance_rejected :: "balance_value call \<Rightarrow> bool" where
  "balance_rejected b =
     (case b of
        Raises e \<Rightarrow> True
      | Returns Balance_none \<Rightarrow> True
      | Returns Balance_not_a_number \<Rightarrow> True
      | Returns (Balance_number x) \<Rightarrow> lt_f x (Some 0))"

text \<open>Two hundred signals with ids of their own; the first is the only one of its symbol.\<close>

definition numbered_signal :: "nat \<Rightarrow> TradingSignal" where
  "numbered_signal n =
     example_signal\<lparr>signal_id := replicate (Suc n) (CHR ''i''), timestamp := int n\<rparr>"

definition first_signal :: TradingSignal where
  "first_signal = (numbered_signal 0)\<lparr>symbol := ''GBPUSD''\<rparr>"

definition two_hundred_signals :: "TradingSignal list" where
  "two_hundred_signals = first_signal # map numbered_signal [1..<200]"

section \<open>Signal generator: confidence, timing, direction\<close>

lemma calculate_confidence_spec:
  assumes "case lvl of None \<Rightarrow> True | Some l \<Rightarrow> valid_level l"
  shows "calculate_confidence sens cs p lvl = spec_confidence sens (length cs) (pattern_type p) lvl"
  using assms
  by (cases lvl)
     (auto simp: calculate_confidence_def spec_confidence_def valid_level_def Let_def max_def min_def)

lemma calculate_confidence_lower:
  assumes "case lvl of None \<Rightarrow> True | Some l \<Rightarrow> valid_level l"
  shows "(if sens = Aggressive then 55 else 0) \<le> calculate_confidence sens cs p lvl"
  using assms
  by (cases lvl) (auto simp: calculate_confidence_def valid_level_def Let_def max_def min_def)

lemma calculate_confidence_upper: "calculate_confidence sens cs p lvl \<le> 95"
  by (simp add: calculate_confidence_def Let_def)

lemma generate_signal_built:
  assumes "generate_signal cfg symb v now uid = Some s"
  shows "\<exists>d. s = build_signal cfg symb v now uid (last (basis_patterns cfg v)) (is_near_level v) d
             \<and> resolve_direction (sensitivity cfg)
                  (determine_direction (last (basis_patterns cfg v)) (is_near_level v) v) v = Some d"
  using assms unfolding generate_signal_def Let_def
  by (auto split: if_splits option.splits)

lemma build_signal_fields:
  "confidence (build_signal cfg symb v now uid p l d) =
     calculate_confidence (sensitivity cfg) (confluences (build_signal cfg symb v now uid p l d)) p l"
  "pattern (build_signal cfg symb v now uid p l d) = p"
  "support_resistance (build_signal cfg symb v now uid p l d) = l"
  "direction (build_signal cfg symb v now uid p l d) = d"
  "timestamp (build_signal cfg symb v now uid p l d) = now"
  "symbol (build_signal cfg symb v now uid p l d) = symb"
  "signal_id (build_signal cfg symb v now uid p l d) = uid"
  "entry_time (build_signal cfg symb v now uid p l d) =
     Some (next_minute now + (if sensitivity cfg = Aggressive then 60000000 else 0))"
  "expiry_minutes (build_signal cfg symb v now uid p l d) = max (timeframe cfg) 2"
  "expiry_time (build_signal cfg symb v now uid p l d) =
     Some (next_minute now + (if sensitivity cfg = Aggressive then 60000000 else 0)
           + max (timeframe cfg) 2 * 60000000)"
  by (simp_all add: build_signal_def Let_def timedelta_minutes_def)

lemma example_generated:
  "generate_signal example_config ''EURUSD'' example_view 90000000 ''id-1'' = Some example_signal"
  by (simp add: generate_signal_def basis_patterns_def example_config_def example_view_def
      determine_direction_def resolve_direction_def apply_filters_def build_signal_def
      signal_confluences_def calculate_confluences_def calculate_confidence_def
      next_minute_def timedelta_minutes_def lt_f_def gt_f_def example_signal_def
      example_level_def Let_def)

text \<open>
  C1. Every signal \<open>generate_signal\<close> returns carries the confidence the specification
  describes: 50, plus 5 per confluence reason of the signal, plus 15 for an engulfing or
  10 for a break-of-structure pattern, plus 3 times the strength of the attached level,
  clamped to 0..95 and floored at 55 in aggressive mode. It lies between 0 and 95, and is
  at least 55 in aggressive mode. The level, when there is one, satisfies the schema's
  bound on its strength.
\<close>

theorem generate_signal_confidence:
  assumes "generate_signal cfg symb v now uid = Some s"
    and "attached_level_valid v"
  shows "confidence s = spec_confidence (sensitivity cfg) (length (confluences s))
                          (pattern_type (pattern s)) (support_resistance s)
         \<and> 0 \<le> confidence s \<and> confidence s \<le> 95
         \<and> (if sensitivity cfg = Aggressive then 55 else 0) \<le> confidence s"
proof -
  from assms(1) obtain d where
    s: "s = build_signal cfg symb v now uid (last (basis_patterns cfg v)) (is_near_level v) d"
    using generate_signal_built by blast
  have c: "confidence s = calculate_confidence (sensitivity cfg) (confluences s) (pattern s)
             (support_resistance s)"
    unfolding s by (simp add: build_signal_fields)
  have l: "case support_resistance s of None \<Rightarrow> True | Some l \<Rightarrow> valid_level l"
    using assms(2) unfolding s by (simp add: build_signal_fields attached_level_valid_def)
  have lo: "(if sensitivity cfg = Aggressive then 55 else 0) \<le> confidence s"
    unfolding c by (rule calculate_confidence_lower[OF l])
  have hi: "confidence s \<le> 95"
    unfolding c by (rule calculate_confidence_upper)
  have z: "0 \<le> confidence s"
    using lo by (simp split: if_splits)
  show ?thesis
    using c calculate_confidence_spec[OF l] lo hi z by simp
qed

theorem generate_signal_confidence_witness:
  "generate_signal example_config ''EURUSD'' example_view 90000000 ''id-1'' = Some example_signal
   \<and> attached_level_valid example_view
   \<and> sensitivity example_config = Aggressive
   \<and> confidence example_signal = 79
   \<and> spec_confidence Aggressive 4 Doji (Some example_level) = 79
   \<and> 55 \<le> confidence example_signal \<and> confidence example_signal \<le> 95"
proof -
  have v: "attached_level_valid example_view"
    by (simp add: attached_level_valid_def example_view_def example_level_def valid_level_def)
  have a: "sensitivity example_config = Aggressive"
    by (simp add: example_config_def)
  have sc: "spec_confidence Aggressive 4 Doji (Some example_level) = 79"
    by (simp add: spec_confidence_def example_level_def)
  have cf: "confidence example_signal = 79"
    by (simp add: example_signal_def)
  from generate_signal_confidence[OF example_generated v] v a sc cf example_generated
  show ?thesis
    by simp
qed

lemma next_minute_boundary: "is_next_minute_boundary now (next_minute now)"
  unfolding is_next_minute_boundary_def next_minute_def timedelta_minutes_def
  by presburger

text \<open>
  C2. For every signal \<open>generate_signal\<close> returns, the timestamp is the time of generation,
  the entry time is the next full-minute boundary after it (one minute more in aggressive
  mode) and hence strictly later, the expiry in minutes is the larger of the configured
  timeframe and 2, and the expiry time is the entry time plus exactly that many minutes.
\<close>

theorem generate_signal_timing:
  assumes "generate_signal cfg symb v now uid = Some s"
  shows "\<exists>e b. entry_time s = Some e \<and> timestamp s = now \<and> timestamp s < e
           \<and> is_next_minute_boundary now b
           \<and> e = b + (if sensitivity cfg = Aggressive then 60000000 else 0)
           \<and> expiry_minutes s = max (timeframe cfg) 2
           \<and> expiry_time s = Some (e + expiry_minutes s * 60000000)"
proof -
  from assms obtain d where
    s: "s = build_signal cfg symb v now uid (last (basis_patterns cfg v)) (is_near_level v) d"
    using generate_signal_built by blast
  have b: "is_next_minute_boundary now (next_minute now)"
    by (rule next_minute_boundary)
  then have "now < next_minute now"
    by (simp add: is_next_minute_boundary_def)
  then have "now < next_minute now + (if sensitivity cfg = Aggressive then 60000000 else 0)"
    by simp
  with b show ?thesis
    unfolding s by (simp add: build_signal_fields)
qed

theorem generate_signal_timing_witness:
  "generate_signal example_config ''EURUSD'' example_view 90000000 ''id-1'' = Some example_signal
   \<and> timestamp example_signal = 90000000
   \<and> entry_time example_signal = Some 180000000
   \<and> is_next_minute_boundary 90000000 120000000
   \<and> expiry_minutes example_signal = 2
   \<and> expiry_time example_signal = Some (180000000 + 2 * 60000000)"
proof -
  have "is_next_minute_boundary 90000000 120000000"
    by (simp add: is_next_minute_boundary_def)
  with generate_signal_timing[OF example_generated] example_generated
  show ?thesis
    by (simp add: example_signal_def)
qed

lemma determine_direction_total: "determine_direction p l v \<noteq> None"
  by (simp add: determine_direction_def)

lemma determine_direction_table:
  assumes "calculate_rsi v \<noteq> []"
  shows "determine_direction p l v =
           Some (spec_direction (pattern_type p) (last (calculate_rsi v)) (detect_trend v))"
  using assms
  by (cases "pattern_type p") (simp_all add: determine_direction_def spec_direction_def)

text \<open>
  C5. On a frame whose RSI series is not empty, \<open>_determine_direction\<close> follows the table of
  the specification for every basis pattern: pin bar, bullish engulfing and bullish break
  of structure give CALL; bearish engulfing and bearish break of structure give PUT; a
  doji gives CALL when the last RSI is below 50 and PUT otherwise; an inside bar gives PUT
  when the trend is bearish and CALL otherwise. The direction of a generated signal is
  the table's entry for its pattern. When no direction came back, \<open>generate_signal\<close>
  compares the last two closes in aggressive mode and gives no signal otherwise.
\<close>

theorem direction_resolution:
  assumes "calculate_rsi v \<noteq> []"
  shows "determine_direction p l v =
           Some (spec_direction (pattern_type p) (last (calculate_rsi v)) (detect_trend v))
         \<and> (case generate_signal cfg symb v now uid of
               None \<Rightarrow> True
             | Some s \<Rightarrow> direction s =
                 spec_direction (pattern_type (pattern s)) (last (calculate_rsi v)) (detect_trend v))
         \<and> resolve_direction sens (Some d) v = Some d
         \<and> resolve_direction sens None v =
             (if sens = Aggressive
              then Some (if ge_f (close_last v) (close_prev v) then CALL else PUT)
              else None)"
proof -
  have g: "case generate_signal cfg symb v now uid of
               None \<Rightarrow> True
             | Some s \<Rightarrow> direction s =
                 spec_direction (pattern_type (pattern s)) (last (calculate_rsi v)) (detect_trend v)"
  proof (cases "generate_signal cfg symb v now uid")
    case None
    then show ?thesis by simp
  next
    case (Some s)
    then obtain d' where
      s: "s = build_signal cfg symb v now uid (last (basis_patterns cfg v)) (is_near_level v) d'"
      and r: "resolve_direction (sensitivity cfg)
                (determine_direction (last (basis_patterns cfg v)) (is_near_level v) v) v = Some d'"
      using generate_signal_built by blast
    from r have "d' = spec_direction (pattern_type (last (basis_patterns cfg v)))
                        (last (calculate_rsi v)) (detect_trend v)"
      by (simp add: determine_direction_table[OF assms] resolve_direction_def)
    then show ?thesis
      using Some unfolding s by (simp add: build_signal_fields)
  qed
  show ?thesis
    using determine_direction_table[OF assms] g
    by (simp add: resolve_direction_def)
qed

theorem direction_resolution_witness:
  "calculate_rsi example_view \<noteq> []
   \<and> determine_direction \<lparr>pattern_type = Doji, description = ''Doji'', candle_index = 59\<rparr>
        None example_view = Some CALL
   \<and> generate_signal example_config ''EURUSD'' example_view 90000000 ''id-1'' = Some example_signal
   \<and> direction example_signal = CALL
   \<and> resolve_direction Aggressive None example_view = Some CALL
   \<and> resolve_direction Moderate None example_view = None"
proof -
  have n: "calculate_rsi example_view \<noteq> []"
    by (simp add: example_view_def)
  have e: "spec_direction Doji (last (calculate_rsi example_view)) (detect_trend example_view) = CALL"
    by (simp add: spec_direction_def example_view_def lt_f_def)
  have c: "ge_f (close_last example_view) (close_prev example_view)"
    by (simp add: example_view_def ge_f_def)
  from direction_resolution[OF n, of "\<lparr>pattern_type = Doji, description = ''Doji'', candle_index = 59\<rparr>"
      None example_config "''EURUSD''" 90000000 "''id-1''" Aggressive CALL]
    direction_resolution[OF n, of "\<lparr>pattern_type = Doji, description = ''Doji'', candle_index = 59\<rparr>"
      None example_config "''EURUSD''" 90000000 "''id-1''" Moderate CALL]
    n e c example_generated
  show ?thesis
    by (simp add: example_signal_def)
qed

section \<open>Automatic scanner: history, deduplication, queries\<close>

lemma evict_oldest_length:
  "length (signal_history st) \<le> 201 \<Longrightarrow> length (signal_history (evict_oldest st)) \<le> 200"
  by (cases "signal_history st") (auto simp: evict_oldest_def)

lemma accept_signal_length:
  "length (signal_history st) \<le> 200 \<Longrightarrow> length (signal_history (accept_signal st s)) \<le> 200"
  unfolding accept_signal_def
  by (rule evict_oldest_length) (simp add: append_signal_def)

lemma accept_signals_length:
  "length (signal_history st) \<le> 200 \<Longrightarrow> length (signal_history (accept_signals st ss)) \<le> 200"
  by (induction ss arbitrary: st) (simp_all add: accept_signal_length)

text \<open>Below 200 entries nothing is evicted: accepting is appending.\<close>

lemma accept_signal_below_cap:
  assumes "length (signal_history st) < 200"
  shows "accept_signal st s = append_signal st s"
proof -
  have "length (signal_history (append_signal st s)) \<le> 200"
    using assms by (simp add: append_signal_def)
  then show ?thesis
    by (simp add: accept_signal_def evict_oldest_def)
qed

text \<open>At 200 entries the head of the history goes, with its id in the index and, when
  it is the latest of its symbol, its entry in the latest map.\<close>

lemma accept_signal_at_cap:
  assumes "signal_history st = oldest # rest" and "length rest = 199"
  shows "accept_signal st s =
           (append_signal st s)
             \<lparr>signal_history := rest @ [s],
              signal_index := (signal_index (append_signal st s))(signal_id oldest := None),
              latest_signals :=
                (if latest_signals (append_signal st s) (symbol oldest) = Some oldest
                 then (latest_signals (append_signal st s))(symbol oldest := None)
                 else latest_signals (append_signal st s))\<rparr>"
proof -
  have h: "signal_history (append_signal st s) = oldest # (rest @ [s])"
    by (simp add: append_signal_def assms)
  have n: "length (signal_history (append_signal st s)) > 200"
    by (simp add: h assms)
  show ?thesis
    using n by (simp add: accept_signal_def evict_oldest_def h)
qed

lemma accept_signal_history:
  assumes "length (signal_history st) \<le> 200"
  shows "signal_history (accept_signal st s) =
           drop (length (signal_history st) + 1 - 200) (signal_history st @ [s])"
proof (cases "length (signal_history st) < 200")
  case True
  then show ?thesis
    by (simp add: accept_signal_below_cap append_signal_def)
next
  case False
  with assms have l: "length (signal_history st) = 200" by simp
  then obtain oldest rest where h: "signal_history st = oldest # rest"
    by (cases "signal_history st") auto
  with l have r: "length rest = 199" by simp
  show ?thesis
    by (simp add: accept_signal_at_cap[OF h r] h r)
qed

lemma accept_signals_history:
  assumes "length (signal_history st) \<le> 200"
  shows "signal_history (accept_signals st sigs) =
           drop (length (signal_history st) + length sigs - 200) (signal_history st @ sigs)"
  using assms
proof (induction sigs arbitrary: st)
  case Nil
  then show ?case by simp
next
  case (Cons s ss)
  let ?h = "signal_history st"
  have b: "length (signal_history (accept_signal st s)) \<le> 200"
    by (rule accept_signal_length[OF Cons.prems])
  have e: "signal_history (accept_signals st (s # ss)) =
             drop (length (signal_history (accept_signal st s)) + length ss - 200)
               (signal_history (accept_signal st s) @ ss)"
    using Cons.IH[OF b] by simp
  show ?case
  proof (cases "length ?h < 200")
    case True
    then have "signal_history (accept_signal st s) = ?h @ [s]"
      by (simp add: accept_signal_below_cap append_signal_def)
    with e show ?thesis by simp
  next
    case False
    with Cons.prems have l: "length ?h = 200" by simp
    then obtain oldest rest where h: "?h = oldest # rest"
      by (cases ?h) auto
    with l have r: "length rest = 199" by simp
    have "signal_history (accept_signal st s) = rest @ [s]"
      by (simp add: accept_signal_at_cap[OF h r])
    with e h r show ?thesis by simp
  qed
qed

lemma accept_signals_snoc:
  "accept_signals st (sigs @ [s]) = accept_signal (accept_signals st sigs) s"
  by (induction sigs arbitrary: st) simp_all

lemma accept_signals_from_empty:
  "signal_history (accept_signals new_scanner sigs) = drop (length sigs - 200) sigs"
  using accept_signals_history[of new_scanner sigs]
  by (simp add: new_scanner_def)

text \<open>
  C3. Whatever sequence of signals a scanner accepts, starting empty, its history is
  afterwards the last 200 of them in the order of acceptance, hence at most 200 long
  after each acceptance (every prefix being a sequence); the loop accepts the signals
  one at a time. Accepting a signal into a history of fewer than 200 only appends it:
  nothing is evicted before the 201st. Accepting into a history of 200 evicts the head,
  the first-appended signal, with the others keeping their order and the new one last;
  the id of the evicted signal leaves the by-id index; and the latest map loses the
  entry of the evicted signal's symbol exactly when that entry was the evicted signal,
  being otherwise what the append made it. In particular, after 200 acceptances from
  empty the 201st evicts the very first signal accepted.
\<close>

theorem history_bounded_fifo:
  "signal_history (accept_signals new_scanner sigs) = drop (length sigs - 200) sigs
   \<and> length (signal_history (accept_signals new_scanner sigs)) \<le> 200
   \<and> accept_signals st (sigs @ [s]) = accept_signal (accept_signals st sigs) s
   \<and> (length (signal_history st) \<le> 200 \<longrightarrow>
        signal_history (accept_signals st sigs) =
          drop (length (signal_history st) + length sigs - 200) (signal_history st @ sigs))
   \<and> (length (signal_history st) < 200 \<longrightarrow> accept_signal st s = append_signal st s)
   \<and> (signal_history st = oldest # rest \<and> length rest = 199 \<longrightarrow>
        accept_signal st s =
          (append_signal st s)
            \<lparr>signal_history := rest @ [s],
             signal_index := (signal_index (append_signal st s))(signal_id oldest := None),
             latest_signals :=
               (if latest_signals (append_signal st s) (symbol oldest) = Some oldest
                then (latest_signals (append_signal st s))(symbol oldest := None)
                else latest_signals (append_signal st s))\<rparr>
        \<and> signal_history (accept_signal st s) = rest @ [s]
        \<and> signal_index (accept_signal st s) (signal_id oldest) = None)
   \<and> (length sigs = 200 \<longrightarrow>
        signal_history (accept_signals new_scanner sigs) = sigs
        \<and> signal_history (accept_signals new_scanner (sigs @ [s])) = tl sigs @ [s]
        \<and> signal_index (accept_signals new_scanner (sigs @ [s])) (signal_id (hd sigs)) = None
        \<and> latest_signals (accept_signals new_scanner (sigs @ [s])) =
            (if latest_signals (append_signal (accept_signals new_scanner sigs) s)
                  (symbol (hd sigs)) = Some (hd sigs)
             then (latest_signals (append_signal (accept_signals new_scanner sigs) s))
                    (symbol (hd sigs) := None)
             else latest_signals (append_signal (accept_signals new_scanner sigs) s)))"
proof -
  have a: "signal_history (accept_signals new_scanner sigs) = drop (length sigs - 200) sigs"
    by (rule accept_signals_from_empty)
  have b: "length (signal_history (accept_signals new_scanner sigs)) \<le> 200"
    by (rule accept_signals_length) (simp add: new_scanner_def)
  have c: "accept_signals st (sigs @ [s]) = accept_signal (accept_signals st sigs) s"
    by (rule accept_signals_snoc)
  have d: "length (signal_history st) \<le> 200 \<longrightarrow>
        signal_history (accept_signals st sigs) =
          drop (length (signal_history st) + length sigs - 200) (signal_history st @ sigs)"
    by (simp add: accept_signals_history)
  have e: "length (signal_history st) < 200 \<longrightarrow> accept_signal st s = append_signal st s"
    by (simp add: accept_signal_below_cap)
  have f: "signal_history st = oldest # rest \<and> length rest = 199 \<longrightarrow>
        accept_signal st s =
          (append_signal st s)
            \<lparr>signal_history := rest @ [s],
             signal_index := (signal_index (append_signal st s))(signal_id oldest := None),
             latest_signals :=
               (if latest_signals (append_signal st s) (symbol oldest) = Some oldest
                then (latest_signals (append_signal st s))(symbol oldest := None)
                else latest_signals (append_signal st s))\<rparr>
        \<and> signal_history (accept_signal st s) = rest @ [s]
        \<and> signal_index (accept_signal st s) (signal_id oldest) = None"
  proof (intro impI, elim conjE)
    assume h: "signal_history st = oldest # rest" and r: "length rest = 199"
    note eq = accept_signal_at_cap[OF h r, of s]
    have "signal_history (accept_signal st s) = rest @ [s]"
      by (subst eq) simp
    moreover have "signal_index (accept_signal st s) (signal_id oldest) = None"
      by (subst eq) simp
    ultimately show "accept_signal st s =
          (append_signal st s)
            \<lparr>signal_history := rest @ [s],
             signal_index := (signal_index (append_signal st s))(signal_id oldest := None),
             latest_signals :=
               (if latest_signals (append_signal st s) (symbol oldest) = Some oldest
                then (latest_signals (append_signal st s))(symbol oldest := None)
                else latest_signals (append_signal st s))\<rparr>
        \<and> signal_history (accept_signal st s) = rest @ [s]
        \<and> signal_index (accept_signal st s) (signal_id oldest) = None"
      using eq by simp
  qed
  have g: "length sigs = 200 \<longrightarrow>
        signal_history (accept_signals new_scanner sigs) = sigs
        \<and> signal_history (accept_signals new_scanner (sigs @ [s])) = tl sigs @ [s]
        \<and> signal_index (accept_signals new_scanner (sigs @ [s])) (signal_id (hd sigs)) = None
        \<and> latest_signals (accept_signals new_scanner (sigs @ [s])) =
            (if latest_signals (append_signal (accept_signals new_scanner sigs) s)
                  (symbol (hd sigs)) = Some (hd sigs)
             then (latest_signals (append_signal (accept_signals new_scanner sigs) s))
                    (symbol (hd sigs) := None)
             else latest_signals (append_signal (accept_signals new_scanner sigs) s))"
  proof
    assume l: "length sigs = 200"
    let ?R = "accept_signals new_scanner sigs"
    from l a have hr: "signal_history ?R = sigs" by simp
    from l obtain x xs where x: "sigs = x # xs"
      by (cases sigs) auto
    with l have r: "length xs = 199" by simp
    from hr x have h: "signal_history ?R = x # xs" by simp
    note eq = accept_signal_at_cap[OF h r, of s]
    have 1: "signal_history (accept_signal ?R s) = xs @ [s]"
      by (subst eq) simp
    have 2: "signal_index (accept_signal ?R s) (signal_id x) = None"
      by (subst eq) simp
    have 3: "latest_signals (accept_signal ?R s) =
               (if latest_signals (append_signal ?R s) (symbol x) = Some x
                then (latest_signals (append_signal ?R s))(symbol x := None)
                else latest_signals (append_signal ?R s))"
      by (subst eq) simp
    from hr 1 2 3 show "signal_history ?R = sigs
        \<and> signal_history (accept_signals new_scanner (sigs @ [s])) = tl sigs @ [s]
        \<and> signal_index (accept_signals new_scanner (sigs @ [s])) (signal_id (hd sigs)) = None
        \<and> latest_signals (accept_signals new_scanner (sigs @ [s])) =
            (if latest_signals (append_signal ?R s) (symbol (hd sigs)) = Some (hd sigs)
             then (latest_signals (append_signal ?R s))(symbol (hd sigs) := None)
             else latest_signals (append_signal ?R s))"
      by (simp add: accept_signals_snoc x)
  qed
  from a b c d e f g show ?thesis by blast
qed

lemma accept_signals_below_cap:
  assumes "length (signal_history st) + length sigs \<le> 200"
  shows "accept_signals st sigs = foldl append_signal st sigs"
  using assms
proof (induction sigs arbitrary: st)
  case Nil
  then show ?case by simp
next
  case (Cons s ss)
  then have l: "length (signal_history st) < 200" by simp
  have "length (signal_history (append_signal st s)) + length ss \<le> 200"
    using Cons.prems by (simp add: append_signal_def)
  from Cons.IH[OF this] show ?case
    by (simp add: accept_signal_below_cap[OF l])
qed

lemma foldl_append_signal_latest:
  assumes "k \<notin> symbol ` set sigs"
  shows "latest_signals (foldl append_signal st sigs) k = latest_signals st k"
  using assms
  by (induction sigs arbitrary: st) (auto simp: append_signal_def)

theorem history_bounded_fifo_witness:
  "length two_hundred_signals = 200
   \<and> length (signal_history new_scanner) < 200
   \<and> accept_signal new_scanner example_signal = append_signal new_scanner example_signal
   \<and> signal_history (accept_signals new_scanner two_hundred_signals) = two_hundred_signals
   \<and> signal_history (accept_signals new_scanner (two_hundred_signals @ [example_signal])) =
       map numbered_signal [1..<200] @ [example_signal]
   \<and> signal_index (accept_signals new_scanner (two_hundred_signals @ [example_signal]))
        (signal_id first_signal) = None
   \<and> latest_signals (accept_signals new_scanner two_hundred_signals) ''GBPUSD'' = Some first_signal
   \<and> latest_signals (accept_signals new_scanner (two_hundred_signals @ [example_signal])) ''GBPUSD''
       = None
   \<and> latest_signals (accept_signals new_scanner (two_hundred_signals @ [example_signal])) ''EURUSD''
       = Some example_signal"
proof -
  let ?R = "accept_signals new_scanner two_hundred_signals"
  have l: "length two_hundred_signals = 200"
    by (simp add: two_hundred_signals_def)
  have n: "length (signal_history new_scanner) < 200"
    by (simp add: new_scanner_def)
  have hd_tl: "hd two_hundred_signals = first_signal"
      "tl two_hundred_signals = map numbered_signal [1..<200]"
    by (simp_all add: two_hundred_signals_def)
  have sy: "symbol first_signal = ''GBPUSD''" "symbol example_signal = ''EURUSD''"
    by (simp_all add: first_signal_def example_signal_def)
  have run: "?R = foldl append_signal (append_signal new_scanner first_signal)
                    (map numbered_signal [1..<200])"
    using accept_signals_below_cap[of new_scanner two_hundred_signals] l
    by (simp add: new_scanner_def two_hundred_signals_def)
  have other: "''GBPUSD'' \<notin> symbol ` set (map numbered_signal [1..<200])"
    by (auto simp: numbered_signal_def example_signal_def)
  have "latest_signals ?R ''GBPUSD'' =
          latest_signals (append_signal new_scanner first_signal) ''GBPUSD''"
    unfolding run by (rule foldl_append_signal_latest[OF other])
  also have "\<dots> = Some first_signal"
    by (simp add: append_signal_def sy)
  finally have lat: "latest_signals ?R ''GBPUSD'' = Some first_signal" .
  have lat1: "latest_signals (append_signal ?R example_signal) ''GBPUSD'' = Some first_signal"
    "latest_signals (append_signal ?R example_signal) ''EURUSD'' = Some example_signal"
    using lat by (simp_all add: append_signal_def sy)
  note t1 = history_bounded_fifo[of two_hundred_signals ?R example_signal
      first_signal "map numbered_signal [1..<200]"]
  note t2 = history_bounded_fifo[of two_hundred_signals new_scanner example_signal
      first_signal "map numbered_signal [1..<200]"]
  from t1 l hd_tl have
    h: "signal_history ?R = two_hundred_signals"
    and h1: "signal_history (accept_signals new_scanner (two_hundred_signals @ [example_signal])) =
       map numbered_signal [1..<200] @ [example_signal]"
    and i1: "signal_index (accept_signals new_scanner (two_hundred_signals @ [example_signal]))
        (signal_id first_signal) = None"
    and m1: "latest_signals (accept_signals new_scanner (two_hundred_signals @ [example_signal])) =
            (if latest_signals (append_signal ?R example_signal) (symbol first_signal)
                = Some first_signal
             then (latest_signals (append_signal ?R example_signal))(symbol first_signal := None)
             else latest_signals (append_signal ?R example_signal))"
    by simp_all
  from t2 n have
    a: "accept_signal new_scanner example_signal = append_signal new_scanner example_signal"
    by simp
  from m1 lat1 sy have
    g: "latest_signals (accept_signals new_scanner (two_hundred_signals @ [example_signal]))
          ''GBPUSD'' = None"
    and e: "latest_signals (accept_signals new_scanner (two_hundred_signals @ [example_signal]))
          ''EURUSD'' = Some example_signal"
    by simp_all
  from l n a h h1 i1 lat g e show ?thesis
    by simp
qed

lemma generate_signal_stamp:
  assumes "generate_signal cfg symb v now uid = Some s"
  shows "timestamp s = now" and "symbol s = symb"
proof -
  from assms obtain d where
    s: "s = build_signal cfg symb v now uid (last (basis_patterns cfg v)) (is_near_level v) d"
    using generate_signal_built by blast
  show "timestamp s = now" and "symbol s = symb"
    unfolding s by (simp_all add: build_signal_fields)
qed

text \<open>
  C4. A signal that \<open>generate_signal\<close> has just produced for a symbol inside \<open>_scan_pair\<close>
  (on a frame with enough rows) is generated now. It is discarded, \<open>_scan_pair\<close> returning
  \<open>None\<close>, when the latest accepted signal of that symbol was generated less than 15
  seconds before it and has the same direction; it is returned when the direction
  differs, when the gap is 15 seconds or more, or when the symbol has no latest signal.
\<close>

theorem scan_pair_deduplication:
  assumes "generate_signal cfg symb v now uid = Some s"
    and "(if sensitivity cfg = Aggressive then 20 else 30) \<le> nrows v"
  shows "timestamp s = now \<and> symbol s = symb
         \<and> scan_pair st cfg symb (Fetch_frame v) now uid =
             (case latest_signals st symb of
                None \<Rightarrow> Some s
              | Some prev_signal \<Rightarrow>
                  if timestamp s - timestamp prev_signal < 15 * 1000000
                     \<and> direction s = direction prev_signal
                  then None else Some s)"
proof -
  have "scan_pair st cfg symb (Fetch_frame v) now uid =
             (case latest_signals st symb of
                None \<Rightarrow> Some s
              | Some prev_signal \<Rightarrow>
                  if timestamp s - timestamp prev_signal < 15 * 1000000
                     \<and> direction s = direction prev_signal
                  then None else Some s)"
    using assms
    by (auto simp: scan_pair_def Let_def timedelta_seconds_def split: option.splits if_splits)
  with generate_signal_stamp[OF assms(1)] show ?thesis by simp
qed

theorem scan_pair_deduplication_witness:
  "generate_signal example_config ''EURUSD'' example_view 90000000 ''id-1'' = Some example_signal
   \<and> (if sensitivity example_config = Aggressive then 20 else 30) \<le> nrows example_view
   \<and> scan_pair (scanner_with_latest (earlier_signal 80000000 CALL)) example_config ''EURUSD''
        (Fetch_frame example_view) 90000000 ''id-1'' = None
   \<and> scan_pair (scanner_with_latest (earlier_signal 70000000 CALL)) example_config ''EURUSD''
        (Fetch_frame example_view) 90000000 ''id-1'' = Some example_signal
   \<and> scan_pair (scanner_with_latest (earlier_signal 75000000 CALL)) example_config ''EURUSD''
        (Fetch_frame example_view) 90000000 ''id-1'' = Some example_signal
   \<and> scan_pair (scanner_with_latest (earlier_signal 80000000 PUT)) example_config ''EURUSD''
        (Fetch_frame example_view) 90000000 ''id-1'' = Some example_signal
   \<and> scan_pair new_scanner example_config ''EURUSD''
        (Fetch_frame example_view) 90000000 ''id-1'' = Some example_signal"
proof -
  have r: "(if sensitivity example_config = Aggressive then 20 else 30) \<le> nrows example_view"
    by (simp add: example_config_def example_view_def)
  have l: "latest_signals (scanner_with_latest (earlier_signal t d)) ''EURUSD'' = Some (earlier_signal t d)"
    for t d
    by (simp add: scanner_with_latest_def earlier_signal_def example_signal_def)
  have f: "timestamp (earlier_signal t d) = t" "direction (earlier_signal t d) = d" for t d
    by (simp_all add: earlier_signal_def)
  have x: "timestamp example_signal = 90000000" "direction example_signal = CALL"
    by (simp_all add: example_signal_def)
  have n: "latest_signals new_scanner ''EURUSD'' = None"
    by (simp add: new_scanner_def)
  from scan_pair_deduplication[OF example_generated r,
        of "scanner_with_latest (earlier_signal 80000000 CALL)"]
    scan_pair_deduplication[OF example_generated r,
        of "scanner_with_latest (earlier_signal 70000000 CALL)"]
    scan_pair_deduplication[OF example_generated r,
        of "scanner_with_latest (earlier_signal 75000000 CALL)"]
    scan_pair_deduplication[OF example_generated r,
        of "scanner_with_latest (earlier_signal 80000000 PUT)"]
    scan_pair_deduplication[OF example_generated r, of new_scanner]
    example_generated r l f x n
  show ?thesis
    by simp
qed

lemma get_latest_signals_nonneg:
  assumes "0 \<le> limit"
  shows "int (length (get_latest_signals st limit mc)) \<le> limit"
    and "\<forall>s \<in> set (get_latest_signals st limit mc). ge_f (Some (confidence s)) mc"
    and "get_latest_signals st limit mc =
           take (nat limit) [s \<leftarrow> rev (signal_history st). ge_f (Some (confidence s)) mc]"
  using assms
  by (auto simp: get_latest_signals_def slice_to_def dest: in_set_takeD)

lemma three_signals_history:
  "signal_history three_signals =
     [example_signal\<lparr>signal_id := ''a'', confidence := 70\<rparr>,
      example_signal\<lparr>signal_id := ''b'', confidence := 80\<rparr>,
      example_signal\<lparr>signal_id := ''c'', confidence := 90\<rparr>]"
  by (simp add: three_signals_def new_scanner_def accept_signal_def append_signal_def
      evict_oldest_def)

text \<open>
  C10. \<open>get_latest_signals\<close> with a negative limit: on a history of three signals of
  confidence 70, 80 and 90, the call with limit -1 and minimum confidence 60 returns two
  signals (the newest two, newest first), which is more than the limit.
\<close>

theorem get_latest_signals_negative_limit:
  "get_latest_signals three_signals (- 1) (Some 60) =
     [example_signal\<lparr>signal_id := ''c'', confidence := 90\<rparr>,
      example_signal\<lparr>signal_id := ''b'', confidence := 80\<rparr>]
   \<and> \<not> int (length (get_latest_signals three_signals (- 1) (Some 60))) \<le> - 1"
  by (simp add: get_latest_signals_def slice_to_def three_signals_history ge_f_def)

section \<open>Instrument selection\<close>

lemma get_pairs_to_scan_manual:
  assumes "mode cfg = Manual" and "symbols cfg = Some syms" and "syms \<noteq> []"
  shows "get_pairs_to_scan cfg get_available_pairs =
           [p \<leftarrow> get_available_pairs True. pair_symbol p \<in> set syms]"
  using assms by (simp add: get_pairs_to_scan_def)

lemma get_otc_pairs_allowlist:
  assumes "symbols cfg = Some syms" and "syms \<noteq> []"
    and "\<not> only_otc cfg" and "\<not> only_open_market cfg"
  shows "get_otc_pairs cfg pairs =
           [p \<leftarrow> pairs. is_active p \<and> (\<exists>a \<in> set syms. upper (pair_symbol p) = upper a)]"
  using assms by (auto simp: get_otc_pairs_def intro: filter_cong)

text \<open>
  C9. Manual mode with the allowlist \<open>eurusd\<close> and the instrument \<open>EURUSD\<close>:
  \<open>AutoScanner._get_pairs_to_scan\<close> compares the symbols as they are written and keeps
  nothing, while \<open>IQOptionScanner._get_otc_pairs\<close> compares them in upper case and keeps
  the instrument.
\<close>

theorem get_pairs_to_scan_case_sensitive:
  "get_pairs_to_scan manual_config (\<lambda>include_otc. [example_pair]) = []
   \<and> get_otc_pairs manual_config [example_pair] = [example_pair]"
  by (simp add: get_pairs_to_scan_def get_otc_pairs_def manual_config_def example_pair_def
      upper_def upper_char_def)

section \<open>Broker session: validation after login\<close>

lemma validate_balance_rejected:
  assumes "balance_rejected (api_get_balance t)"
  shows "fst (validate_balance t c) \<noteq> None \<and> \<not> connected (snd (validate_balance t c))"
  using assms
  by (auto simp: validate_balance_def balance_rejected_def disconnect_def
      clear_connection_state_def Let_def split: call.splits balance_value.splits)

lemma validate_balance_accepted:
  assumes "validate_balance t c = (None, c')"
  shows "\<exists>b. api_get_balance t = Returns (Balance_number b) \<and> \<not> lt_f b (Some 0)
             \<and> last_known_balance c' = Some b \<and> connected c' = connected c"
  using assms
  by (auto simp: validate_balance_def Let_def split: call.splits balance_value.splits if_splits)

lemma finalize_balance_rejected:
  assumes "balance_rejected (api_get_balance t)"
    and "api_change_balance t = Returns ()" and "\<forall>e. api_check_connect t \<noteq> Some (Raises e)"
  shows "fst (finalize_successful_login t c) \<noteq> None"
    and "api c \<Longrightarrow> \<not> connected (snd (finalize_successful_login t c))"
  using assms validate_balance_rejected[OF assms(1)]
  by (auto simp: finalize_successful_login_def Let_def disconnect_def clear_connection_state_def
      split: call.splits option.splits bool.splits)

lemma finalize_returns:
  assumes "finalize_successful_login t c = (None, c')"
  shows "\<exists>b. api_get_balance t = Returns (Balance_number b) \<and> \<not> lt_f b (Some 0) \<and> connected c'"
proof -
  from assms have "validate_balance t
      (c\<lparr>connected := True, awaiting_two_factor := False, two_factor_message := None,
         last_error := None\<rparr>) = (None, c')"
    by (auto simp: finalize_successful_login_def Let_def
        split: if_splits call.splits option.splits bool.splits)
  from validate_balance_accepted[OF this] show ?thesis
    by auto
qed

text \<open>Through \<open>connect\<close>, a client that was not connected is connected afterwards only
  when the login was reported as a success and the balance came back as a number that is
  not negative.\<close>

lemma connect_attempt_connected:
  assumes "connect_attempt t c = (r, c')" and "connected c'" and "\<not> connected c"
  shows "r = Returns True
         \<and> (\<exists>b. api_get_balance t = Returns (Balance_number b) \<and> \<not> lt_f b (Some 0))"
proof -
  have nc: "\<not> connected (snd (connect_failed e x))" for e x
    by (simp add: connect_failed_def clear_connection_state_def)
  show ?thesis
  proof (cases "create_api t")
    case (Raises e)
    with assms nc[of e c] show ?thesis
      by (auto simp: connect_attempt_def)
  next
    case (Returns u)
    note cr = this
    show ?thesis
    proof (cases "api_connect t")
      case (Raises e)
      with assms cr nc[of e "c\<lparr>api := True\<rparr>"] show ?thesis
        by (auto simp: connect_attempt_def Let_def)
    next
      case (Returns cr2)
      obtain check rs where cr2: "cr2 = (check, rs)" by (cases cr2)
      show ?thesis
      proof (cases check)
        case False
        with assms cr Returns cr2 show ?thesis
          by (auto simp: connect_attempt_def Let_def handle_two_factor_challenge_def
              clear_connection_state_def split: if_splits)
      next
        case True
        obtain x c2 where f: "finalize_successful_login t (c\<lparr>api := True\<rparr>) = (x, c2)"
          by (cases "finalize_successful_login t (c\<lparr>api := True\<rparr>)")
        show ?thesis
        proof (cases x)
          case None
          with assms cr Returns cr2 True f finalize_returns[of t "c\<lparr>api := True\<rparr>" c2]
          show ?thesis
            by (auto simp: connect_attempt_def Let_def)
        next
          case (Some e)
          with assms cr Returns cr2 True f nc[of e c2] show ?thesis
            by (auto simp: connect_attempt_def Let_def)
        qed
      qed
    qed
  qed
qed

lemma connect_attempt_balance_rejected:
  assumes "balance_rejected (api_get_balance t)" and "\<not> connected c"
  shows "fst (connect_attempt t c) \<noteq> Returns True \<and> \<not> connected (snd (connect_attempt t c))"
proof -
  obtain r c' where e: "connect_attempt t c = (r, c')"
    by (cases "connect_attempt t c")
  have "\<not> connected c'"
  proof
    assume "connected c'"
    from connect_attempt_connected[OF e this assms(2)] assms(1) show False
      by (auto simp: balance_rejected_def)
  qed
  moreover have "r \<noteq> Returns True"
  proof
    assume "r = Returns True"
    with e have "connected c'"
      by (auto simp: connect_attempt_def connect_failed_def Let_def
          dest: finalize_returns split: call.splits if_splits option.splits prod.splits)
    with \<open>\<not> connected c'\<close> show False by simp
  qed
  ultimately show ?thesis using e by simp
qed

text \<open>Through second-factor completion, a rejected balance is never reported as a
  success and never leaves the client connected, provided the switch of the balance and
  the liveness probe did not raise.\<close>

lemma submit_two_factor_balance_rejected:
  assumes "balance_rejected (api_get_balance t)"
    and "api_connect_2fa t = Returns (True, r)"
    and "api_change_balance t = Returns ()"
    and "\<forall>e. api_check_connect t \<noteq> Some (Raises e)"
    and "awaiting_two_factor c" and "api c"
  shows "(\<exists>e. fst (submit_two_factor_code t c) = Raises e)
         \<and> \<not> connected (snd (submit_two_factor_code t c))"
proof -
  obtain x c1 where f: "finalize_successful_login t c = (x, c1)"
    by (cases "finalize_successful_login t c")
  from finalize_balance_rejected[OF assms(1) assms(3) assms(4), of c] f assms(6)
  have "x \<noteq> None" and "\<not> connected c1" by simp_all
  with f assms show ?thesis
    by (auto simp: submit_two_factor_code_def)
qed

text \<open>
  C8. Second-factor completion on a client that waits for its code, with a broker that
  accepts the code and then raises when the balance is switched: the exception leaves
  \<open>submit_two_factor_code\<close>, no balance has been fetched, and the client is left connected.
  The same broker answers through \<open>connect\<close> leave the client disconnected with the login
  reported as failed.
\<close>

theorem submit_two_factor_left_connected:
  "fst (submit_two_factor_code
          (accepting_transport (Raises ''timeout'') (Returns Balance_none)) pending_client)
     = Raises ''timeout''
   \<and> connected (snd (submit_two_factor_code
          (accepting_transport (Raises ''timeout'') (Returns Balance_none)) pending_client))
   \<and> last_known_balance (snd (submit_two_factor_code
          (accepting_transport (Raises ''timeout'') (Returns Balance_none)) pending_client)) = None
   \<and> fst (connect True (accepting_transport (Raises ''timeout'') (Returns Balance_none))
            None None None fresh_client) = Returns False
   \<and> \<not> connected (snd (connect True (accepting_transport (Raises ''timeout'') (Returns Balance_none))
            None None None fresh_client))"
  by (simp add: submit_two_factor_code_def connect_def connect_attempt_def connect_failed_def
      finalize_successful_login_def accepting_transport_def pending_client_def fresh_client_def
      clear_connection_state_def truthy_def no_reason_def Let_def)

text \<open>The client of this run does wait for its code and holds a library object, so the
  guard of \<open>submit_two_factor_code\<close> lets the code through; it was not connected before.\<close>

theorem submit_two_factor_left_connected_witness:
  "awaiting_two_factor pending_client \<and> api pending_client \<and> \<not> connected pending_client
   \<and> truthy (email fresh_client) \<and> truthy (password fresh_client)
   \<and> connected (snd (submit_two_factor_code
          (accepting_transport (Raises ''timeout'') (Returns Balance_none)) pending_client))
   \<and> \<not> connected (snd (connect True (accepting_transport (Raises ''timeout'') (Returns Balance_none))
            None None None fresh_client))"
  using submit_two_factor_left_connected
  by (simp add: pending_client_def fresh_client_def truthy_def)

end
